theory Spec2Isabelle
  imports Complex_Main "HOL-Library.Log_Nat" "HOL-Library.AList"
begin

section \<open>JavaScript numbers\<close>

text \<open>
  A finite JavaScript Number is an IEEE-754 binary64 value, hence a rational. Every
  arithmetic operator of the language computes the exact rational result and rounds it
  to the nearest binary64 value, ties to even; storing a Number into a
  \<^verbatim>\<open>Float32Array\<close> rounds it once more, to binary32. The rounding is written out
  below for finite, non-overflowing values (infinities and NaN are not represented); a
  value below the normal range is rounded on the subnormal grid.
\<close>

definition pow2 :: "int \<Rightarrow> rat" where
  "pow2 k = (if 0 \<le> k then 2 ^ nat k else 1 / 2 ^ nat (- k))"

text \<open>The binary exponent of a non-zero rational: \<open>pow2 e \<le> \<bar>x\<bar> < pow2 (e + 1)\<close>.\<close>

definition binade :: "rat \<Rightarrow> int" where
  "binade x =
     (let (a, b) = quotient_of \<bar>x\<bar>;
          k = bitlen a - bitlen b
      in if pow2 k \<le> \<bar>x\<bar> then k else k - 1)"

text \<open>The nearest integer, a tie going to the even neighbour.\<close>

definition round_half_even :: "rat \<Rightarrow> int" where
  "round_half_even q =
     (let f = \<lfloor>q\<rfloor>;
          d = q - of_int f
      in if d < 1 / 2 then f
         else if 1 / 2 < d then f + 1
         else if even f then f else f + 1)"

text \<open>
  Rounding to a binary format with \<open>p\<close> significand bits and least normal exponent
  \<open>emin\<close>: the spacing of the format at \<open>x\<close> is \<open>pow2 (max (binade x) emin - (p - 1))\<close>.
\<close>

definition rne :: "nat \<Rightarrow> int \<Rightarrow> rat \<Rightarrow> rat" where
  "rne p emin x =
     (if x = 0 then 0
      else let u = pow2 (max (binade x) emin - (int p - 1))
           in of_int (round_half_even (x / u)) * u)"

text \<open>
  An arithmetic: how the result of one operator is rounded (\<open>rnd\<close>) and how a value is
  stored into the typed array that is returned (\<open>narrow\<close>). \<open>ieee\<close> is what a JavaScript
  engine does; \<open>exact\<close> is arithmetic on the rationals with no rounding at all.
\<close>

record fp_arith =
  rnd :: "rat \<Rightarrow> rat"
  narrow :: "rat \<Rightarrow> rat"

definition ieee :: fp_arith where
  "ieee = \<lparr>rnd = rne 53 (- 1022), narrow = rne 24 (- 126)\<rparr>"


section \<open>The geometric correction\<close>

text \<open>
  \<^verbatim>\<open>perEyeTexOffset(K, width, height, baseline_m, convergence_m, eye)\<close>, operator by
  operator in the order JavaScript evaluates them. \<open>K\<close> is the array of the rows of the
  intrinsic matrix; unary minus is exact in binary floating point.
\<close>

definition perEyeTexOffset ::
  "fp_arith \<Rightarrow> rat list list \<Rightarrow> rat \<Rightarrow> rat \<Rightarrow> rat \<Rightarrow> rat \<Rightarrow> string \<Rightarrow> rat \<times> rat" where
  "perEyeTexOffset A K width height baseline_m convergence_m eye =
    (let fx = K ! 0 ! 0;
         cx = K ! 0 ! 2;
         cy = K ! 1 ! 2;
         dx_pp = rnd A (rnd A (cx - rnd A (width / 2)) / width);
         dy_pp = rnd A (rnd A (cy - rnd A (height / 2)) / height);
         conv_tc = rnd A (rnd A (fx * baseline_m) / rnd A (rnd A (2 * convergence_m) * width));
         eye_sign = (if eye = ''left'' then 1 else - 1);
         du = rnd A (- dx_pp + rnd A (eye_sign * conv_tc));
         dv = dy_pp
     in (narrow A du, narrow A dv))"




section \<open>Values, effects and the client's state\<close>

text \<open>
  A JavaScript value as \<^verbatim>\<open>res.json()\<close> can deliver it, and \<^verbatim>\<open>undefined\<close>, which reading
  a missing property gives.
\<close>

datatype jsval =
    JUndefined
  | JNull
  | JBool bool
  | JNum rat
  | JStr string
  | JArr "jsval list"
  | JObj "(string \<times> jsval) list"

text \<open>
  An exception value: \<^verbatim>\<open>new Error(v)\<close> of the program for a string (\<open>Error\<close>) or for
  any other value (\<open>ErrorOf\<close>), or an exception raised by the platform.
\<close>

datatype exn = Error string | ErrorOf jsval | TypeError string | DOMException string

text \<open>\<^verbatim>\<open>!v\<close> is \<open>\<not> truthy v\<close>.\<close>

fun truthy :: "jsval \<Rightarrow> bool" where
  "truthy JUndefined = False"
| "truthy JNull = False"
| "truthy (JBool b) = b"
| "truthy (JNum n) = (n \<noteq> 0)"
| "truthy (JStr s) = (s \<noteq> [])"
| "truthy (JArr _) = True"
| "truthy (JObj _) = True"

fun typeof :: "jsval \<Rightarrow> string" where
  "typeof JUndefined = ''undefined''"
| "typeof JNull = ''object''"
| "typeof (JBool _) = ''boolean''"
| "typeof (JNum _) = ''number''"
| "typeof (JStr _) = ''string''"
| "typeof (JArr _) = ''object''"
| "typeof (JObj _) = ''object''"

text \<open>
  \<^verbatim>\<open>v.key\<close> for a key that is neither an index nor a built-in property (the program reads
  \<^verbatim>\<open>k_left\<close>, \<^verbatim>\<open>k_right\<close> and \<^verbatim>\<open>baseline_m\<close>): an object's own property, and
  \<^verbatim>\<open>undefined\<close> on every other value the program reads it from.
\<close>

fun get_prop :: "jsval \<Rightarrow> string \<Rightarrow> jsval" where
  "get_prop (JObj kvs) key = (case map_of kvs key of Some v \<Rightarrow> v | None \<Rightarrow> JUndefined)"
| "get_prop _ key = JUndefined"

text \<open>An object in the sense of the calibration payload: an array or a plain object.\<close>

fun is_object :: "jsval \<Rightarrow> bool" where
  "is_object (JArr _) = True"
| "is_object (JObj _) = True"
| "is_object _ = False"

text \<open>Decimal digits of a number, for the template strings.\<close>

fun show_nat :: "nat \<Rightarrow> string" where
  "show_nat n =
     (if n < 10 then [char_of (48 + n)]
      else show_nat (n div 10) @ [char_of (48 + n mod 10)])"

declare show_nat.simps [simp del]

text \<open>The two video elements and the two textures of the page.\<close>

datatype video_el = LeftVideo | RightVideo

datatype texture = LeftTexture | RightTexture

text \<open>What a texture holds: the checkerboard canvas, or a frame taken from a video.\<close>

datatype tex_content = DefaultCanvas | VideoFrame video_el nat

record video =
  readyState :: nat
  videoWidth :: nat
  videoHeight :: nat
  currentFrame :: nat

record xr_viewport =
  vp_x :: int
  vp_y :: int
  vp_width :: int
  vp_height :: int

text \<open>
  A view of the pose, with what \<^verbatim>\<open>baseLayer.getViewport(view)\<close> answers for it
  (\<open>None\<close> is \<^verbatim>\<open>null\<close>).
\<close>

record xr_view =
  eye :: string
  layerViewport :: "xr_viewport option"

record xr_pose =
  position :: "rat \<times> rat \<times> rat"
  orientation :: "rat \<times> rat \<times> rat \<times> rat"
  views :: "xr_view list"

record gamepad_button =
  pressed :: bool

record xr_gamepad =
  axes :: "rat list"
  gp_buttons :: "gamepad_button list"

record input_source =
  gamepad :: "xr_gamepad option"
  handedness :: string

text \<open>
  The telemetry messages. A joystick \<^verbatim>\<open>{x, y}\<close> is the pair \<open>(x, y)\<close>; the object
  \<^verbatim>\<open>buttons\<close> is the list of its keys with their values, in insertion order.
\<close>

record controller_message =
  msg_type :: string
  timestamp :: nat
  leftJoystick :: "rat \<times> rat"
  rightJoystick :: "rat \<times> rat"
  buttons :: "(string \<times> bool) list"

datatype message =
    PoseMsg "rat \<times> rat \<times> rat" "rat \<times> rat \<times> rat \<times> rat"
  | ControllerMsg controller_message

record data_channel =
  dc_label :: string
  ordered :: bool
  maxRetransmits :: "nat option"
  dc_readyState :: string

datatype gl_call =
    BindFramebuffer
  | ClearColor
  | Clear
  | UseProgram
  | EnableVertexAttribArray
  | BindBuffer
  | VertexAttribPointer
  | Viewport xr_viewport
  | ActiveTexture
  | BindTexture texture
  | TexImage2D texture video_el nat
  | Uniform1i
  | Uniform2fv "rat \<times> rat"
  | DrawArrays "texture option" "tex_content option"

text \<open>
  A line for the log overlay: a text, a text followed by \<^verbatim>\<open>JSON.stringify\<close> of a value, or
  a text followed by the message of an exception.
\<close>

datatype overlay_text =
    Plain string
  | WithJSON string jsval
  | WithExnMessage string exn

text \<open>
  Everything the program does to the outside, in the order it does it. \<open>DrawArrays\<close>
  records the texture bound at the draw and what that texture holds.
\<close>

datatype effect =
    SetStatus string
  | LogToOverlay overlay_text string
  | LogError string "exn option"
  | ConsoleError string exn
  | Send message
  | RequestAnimationFrame
  | GL gl_call

text \<open>The module's variables, the page's two video elements and the log of effects.\<close>

record client =
  hasLoggedLeftVideo :: bool
  hasLoggedRightVideo :: bool
  glReady :: bool
  uTexOffsetLoc :: bool
  samplerLoc :: bool
  positionAttrLoc :: int
  texOffsetLeft :: "(rat \<times> rat) option"
  texOffsetRight :: "(rat \<times> rat) option"
  calib :: jsval
  dataChannel :: "data_channel option"
  videoCount :: nat
  leftVideoSrc :: "nat option"
  rightVideoSrc :: "nat option"
  leftTexture :: "tex_content option"
  rightTexture :: "tex_content option"
  boundTexture :: "texture option"
  trace :: "effect list"

definition init_client :: client where
  "init_client =
     \<lparr>hasLoggedLeftVideo = False, hasLoggedRightVideo = False, glReady = False,
      uTexOffsetLoc = False, samplerLoc = False, positionAttrLoc = - 1,
      texOffsetLeft = None, texOffsetRight = None, calib = JNull, dataChannel = None,
      videoCount = 0, leftVideoSrc = None, rightVideoSrc = None,
      leftTexture = None, rightTexture = None, boundTexture = None, trace = []\<rparr>"

definition emit :: "effect \<Rightarrow> client \<Rightarrow> client" where
  "emit e s = s\<lparr>trace := trace s @ [e]\<rparr>"

text \<open>The helpers of \<^verbatim>\<open>logging.js\<close>, each one effect.\<close>

definition setStatus :: "string \<Rightarrow> client \<Rightarrow> client" where
  "setStatus m s = emit (SetStatus m) s"

definition logToOverlay :: "overlay_text \<Rightarrow> string \<Rightarrow> client \<Rightarrow> client" where
  "logToOverlay m level s = emit (LogToOverlay m level) s"

definition logError :: "string \<Rightarrow> exn option \<Rightarrow> client \<Rightarrow> client" where
  "logError m err s = emit (LogError m err) s"

section \<open>Session negotiation\<close>

text \<open>
  What the network answers to \<^verbatim>\<open>startWebRTC\<close>: the parsed answer of the signalling
  endpoint, or the exception that creating the offer, the request or its parsing raised;
  and the exception of \<^verbatim>\<open>setRemoteDescription\<close>, if any.
\<close>

record rtc_env =
  answer :: "exn + jsval"
  setRemoteDescriptionError :: "exn option"

text \<open>\<^verbatim>\<open>pc.createDataChannel(label, {ordered, maxRetransmits})\<close>: a channel not yet open.\<close>

definition createDataChannel :: "string \<Rightarrow> bool \<Rightarrow> nat option \<Rightarrow> data_channel" where
  "createDataChannel l ord retr =
     \<lparr>dc_label = l, ordered = ord, maxRetransmits = retr, dc_readyState = ''connecting''\<rparr>"

definition startWebRTC :: "rtc_env \<Rightarrow> client \<Rightarrow> exn option \<times> client" where
  "startWebRTC env s =
    (let s1 = setStatus ''Starting WebRTC'' s;
         s2 = s1\<lparr>dataChannel := Some (createDataChannel ''poseData'' True (Some 0)),
                 videoCount := 0\<rparr>
     in case answer env of
          Inl e \<Rightarrow> (Some e, s2)
        | Inr a \<Rightarrow>
            if a = JNull \<or> a = JUndefined then (Some (TypeError ''answer.error''), s2)
            else if truthy (get_prop a ''error'') then
              (Some (case get_prop a ''error'' of JStr m \<Rightarrow> Error m | v \<Rightarrow> ErrorOf v), s2)
            else (case setRemoteDescriptionError env of
                    Some e \<Rightarrow> (Some e, s2)
                  | None \<Rightarrow> (None, s2)))"

text \<open>
  The \<^verbatim>\<open>track\<close> event: the kind of the track, a number naming the track, and the
  transceiver with its \<^verbatim>\<open>mid\<close> (\<open>None\<close> is \<^verbatim>\<open>null\<close>).
\<close>

record rtc_transceiver =
  mid :: "string option"

record track_event =
  kind :: string
  trackId :: nat
  transceiver :: "rtc_transceiver option"

text \<open>The element \<^verbatim>\<open>targetVideo\<close> that \<^verbatim>\<open>pc.ontrack\<close> chooses for a video track.\<close>

definition targetVideo :: "track_event \<Rightarrow> client \<Rightarrow> video_el" where
  "targetVideo ev s =
     (case transceiver ev of
        None \<Rightarrow> (if videoCount s = 0 then LeftVideo else RightVideo)
      | Some t \<Rightarrow>
          (case mid t of
             None \<Rightarrow> (if videoCount s = 0 then LeftVideo else RightVideo)
           | Some m \<Rightarrow> (if m = ''0'' then LeftVideo else RightVideo)))"

definition ontrack :: "track_event \<Rightarrow> client \<Rightarrow> client" where
  "ontrack ev s =
     (if kind ev \<noteq> ''video'' then s
      else let s1 = (case targetVideo ev s of
                       LeftVideo \<Rightarrow> s\<lparr>leftVideoSrc := Some (trackId ev)\<rparr>
                     | RightVideo \<Rightarrow> s\<lparr>rightVideoSrc := Some (trackId ev)\<rparr>);
               s2 = setStatus (''Video track '' @ show_nat (videoCount s1 + 1) @ '' attached'') s1
           in s2\<lparr>videoCount := videoCount s2 + 1\<rparr>)"

section \<open>Calibration and startup\<close>

record fetch_response =
  ok :: bool
  status :: nat
  json :: "exn + jsval"

text \<open>
  \<^verbatim>\<open>loadCalibration\<close>, given what \<^verbatim>\<open>fetch("/calibration")\<close> delivers: an exception or a
  response. The result is the exception it rethrows, if any.
\<close>

definition loadCalibration :: "exn + fetch_response \<Rightarrow> client \<Rightarrow> exn option \<times> client" where
  "loadCalibration fetched s =
    (case fetched of
       Inl e \<Rightarrow> (Some e, logError ''Failed to load calibration'' (Some e) s)
     | Inr res \<Rightarrow>
         if \<not> ok res then
           (let e = Error (''Calibration request failed: '' @ show_nat (status res))
            in (Some e, logError ''Failed to load calibration'' (Some e) s))
         else (case json res of
                 Inl e \<Rightarrow> (Some e, logError ''Failed to load calibration'' (Some e) s)
               | Inr v \<Rightarrow>
                   (let s1 = s\<lparr>calib := v\<rparr>
                    in if \<not> truthy v \<or> \<not> truthy (get_prop v ''k_left'')
                          \<or> \<not> truthy (get_prop v ''k_right'')
                          \<or> typeof (get_prop v ''baseline_m'') \<noteq> ''number'' then
                         (let e = Error ''Calibration payload missing required fields''
                          in (Some e, logError ''Failed to load calibration'' (Some e) s1))
                       else (None, logToOverlay (WithJSON ''Calibration: '' v) ''info''
                                     (setStatus ''Calibration loaded'' s1)))))"

text \<open>
  \<^verbatim>\<open>initGLResources\<close>, given whether the canvas yields a context, the exception of shader
  compilation or linking if any, and the locations the linked program reports.
\<close>

record gl_env =
  contextAvailable :: bool
  buildError :: "exn option"
  uTexOffsetFound :: bool
  samplerFound :: bool
  positionAttr :: int

definition initGLResources :: "gl_env \<Rightarrow> client \<Rightarrow> exn option \<times> client" where
  "initGLResources env s =
    (if \<not> contextAvailable env then (Some (TypeError ''gl.createShader''), s)
     else (case buildError env of
             Some e \<Rightarrow> (Some e, s\<lparr>glReady := True\<rparr>)
           | None \<Rightarrow>
               (None, s\<lparr>glReady := True,
                        uTexOffsetLoc := uTexOffsetFound env,
                        samplerLoc := samplerFound env,
                        positionAttrLoc := positionAttr env,
                        leftTexture := Some DefaultCanvas,
                        rightTexture := Some DefaultCanvas,
                        boundTexture := Some RightTexture\<rparr>)))"

text \<open>
  \<^verbatim>\<open>startXR\<close> up to its two calls of \<^verbatim>\<open>perEyeTexOffset\<close>: either it has returned before
  them, or it makes them, with \<^verbatim>\<open>calib.k_left\<close>, \<^verbatim>\<open>calib.k_right\<close> and
  \<^verbatim>\<open>calib.baseline_m\<close> as they are.
\<close>

record xr_env =
  xrSupported :: bool
  rtc :: rtc_env
  calibrationFetch :: "exn + fetch_response"
  glInit :: gl_env

datatype startup =
    XRUnsupported
  | StartupFailed exn
  | GLInitFailed exn
  | CalculatorCalled jsval jsval jsval

definition startXR :: "xr_env \<Rightarrow> client \<Rightarrow> startup \<times> client" where
  "startXR env s =
    (if \<not> xrSupported env then (XRUnsupported, logError ''WebXR not supported'' None s)
     else (case startWebRTC (rtc env) s of
             (Some e, s1) \<Rightarrow> (StartupFailed e, logError ''Startup failed'' (Some e) s1)
           | (None, s1) \<Rightarrow>
               (case loadCalibration (calibrationFetch env) s1 of
                  (Some e, s2) \<Rightarrow> (StartupFailed e, logError ''Startup failed'' (Some e) s2)
                | (None, s2) \<Rightarrow>
                    (case (if \<not> glReady s2 then initGLResources (glInit env) s2
                           else (None, s2)) of
                       (Some e, s3) \<Rightarrow> (GLInitFailed e, logError ''WebGL init failed'' (Some e) s3)
                     | (None, s3) \<Rightarrow>
                         (CalculatorCalled (get_prop (calib s3) ''k_left'')
                            (get_prop (calib s3) ''k_right'')
                            (get_prop (calib s3) ''baseline_m''), s3)))))"

section \<open>The frame loop\<close>

text \<open>
  What the platform presents at one invocation of \<^verbatim>\<open>onXRFrame\<close>: the answer of
  \<^verbatim>\<open>frame.getViewerPose\<close> (an exception, \<^verbatim>\<open>null\<close> or a pose), the session's input
  sources, the two video elements as they are now, the exception with which
  \<^verbatim>\<open>dataChannel.send\<close> would reject a message and \<^verbatim>\<open>gl.texImage2D\<close> a video, if any,
  and the clock. The other calls to WebGL and \<^verbatim>\<open>requestAnimationFrame\<close> do not raise.
\<close>

record xr_frame =
  viewerPose :: "exn + xr_pose option"
  inputSources :: "input_source list"
  leftVideo :: video
  rightVideo :: video
  sendError :: "message \<Rightarrow> exn option"
  texImageError :: "video_el \<Rightarrow> exn option"
  now :: nat

definition channel_open :: "client \<Rightarrow> bool" where
  "channel_open s =
     (case dataChannel s of None \<Rightarrow> False | Some c \<Rightarrow> dc_readyState c = ''open'')"

subsection \<open>Controller telemetry\<close>

text \<open>\<^verbatim>\<open>btns[i] && btns[i].pressed\<close>: an index past the end reads \<^verbatim>\<open>undefined\<close>.\<close>

definition pressed_at :: "gamepad_button list \<Rightarrow> nat \<Rightarrow> bool" where
  "pressed_at btns i = (i < length btns \<and> pressed (btns ! i))"

text \<open>\<^verbatim>\<open>controllerMessage.buttons[key] = true\<close>.\<close>

definition set_button :: "string \<Rightarrow> controller_message \<Rightarrow> controller_message" where
  "set_button key m = m\<lparr>buttons := AList.update key True (buttons m)\<rparr>"

text \<open>One round of the loop over the input sources.\<close>

definition controller_step :: "input_source \<Rightarrow> controller_message \<Rightarrow> controller_message" where
  "controller_step inputSource m =
    (case gamepad inputSource of
       None \<Rightarrow> m
     | Some g \<Rightarrow>
        (let hand = handedness inputSource;
             m1 = (if 4 \<le> length (axes g) then
                     (let stick = (axes g ! 2, - (axes g ! 3));
                          ma = (if hand = ''left'' then m\<lparr>leftJoystick := stick\<rparr> else m)
                      in if hand = ''right'' then ma\<lparr>rightJoystick := stick\<rparr> else ma)
                   else m);
             btns = gp_buttons g;
             m2 = (if pressed_at btns 0 then set_button (hand @ ''_trigger'') m1 else m1);
             m3 = (if pressed_at btns 1 then set_button (hand @ ''_grip'') m2 else m2);
             m4 = (if pressed_at btns 4 then set_button ''plow_up'' m3 else m3);
             m5 = (if pressed_at btns 5 then set_button ''plow_down'' m4 else m4);
             m6 = (if hand = ''right'' \<and> pressed_at btns 1 then set_button ''lights'' m5 else m5)
         in if hand = ''left'' \<and> pressed_at btns 1 then set_button ''horn'' m6 else m6))"

fun controller_loop :: "input_source list \<Rightarrow> controller_message \<Rightarrow> controller_message" where
  "controller_loop [] m = m"
| "controller_loop (inputSource # rest) m = controller_loop rest (controller_step inputSource m)"

definition controllerMessage :: "nat \<Rightarrow> input_source list \<Rightarrow> controller_message" where
  "controllerMessage t srcs =
     controller_loop srcs
       \<lparr>msg_type = ''controller'', timestamp = t, leftJoystick = (0, 0),
        rightJoystick = (0, 0), buttons = []\<rparr>"

definition sendControllerData :: "xr_frame \<Rightarrow> input_source list \<Rightarrow> client \<Rightarrow> client" where
  "sendControllerData f srcs s =
    (if \<not> channel_open s then s
     else (let m = ControllerMsg (controllerMessage (now f) srcs)
           in case sendError f m of
                None \<Rightarrow> emit (Send m) s
              | Some e \<Rightarrow> logToOverlay (WithExnMessage ''Controller send error: '' e) ''info'' s))"

subsection \<open>Pose telemetry\<close>

text \<open>
  The block of \<^verbatim>\<open>onXRFrame\<close> that sends the head pose. Its \<^verbatim>\<open>send\<close> is not guarded:
  an exception leaves the block.
\<close>

definition sendPose :: "xr_frame \<Rightarrow> xr_pose \<Rightarrow> client \<Rightarrow> exn option \<times> client" where
  "sendPose f p s =
    (if channel_open s then
       (let m = PoseMsg (position p) (orientation p)
        in case sendError f m of
             None \<Rightarrow> (None, emit (Send m) s)
           | Some e \<Rightarrow> (Some e, s))
     else (None, s))"

subsection \<open>Textures and drawing\<close>

definition gl :: "gl_call \<Rightarrow> client \<Rightarrow> client" where
  "gl c s = emit (GL c) s"

definition bindTexture :: "texture \<Rightarrow> client \<Rightarrow> client" where
  "bindTexture t s = gl (BindTexture t) (s\<lparr>boundTexture := Some t\<rparr>)"

definition texture_content :: "client \<Rightarrow> texture \<Rightarrow> tex_content option" where
  "texture_content s t = (case t of LeftTexture \<Rightarrow> leftTexture s | RightTexture \<Rightarrow> rightTexture s)"

text \<open>
  \<^verbatim>\<open>gl.texImage2D\<close> of the current frame of a video into a texture (the one bound just
  before).
\<close>

definition texImage2D :: "texture \<Rightarrow> video_el \<Rightarrow> nat \<Rightarrow> client \<Rightarrow> client" where
  "texImage2D t v n s =
     gl (TexImage2D t v n)
       (case t of
          LeftTexture \<Rightarrow> s\<lparr>leftTexture := Some (VideoFrame v n)\<rparr>
        | RightTexture \<Rightarrow> s\<lparr>rightTexture := Some (VideoFrame v n)\<rparr>)"

definition drawArrays :: "client \<Rightarrow> client" where
  "drawArrays s =
     gl (DrawArrays (boundTexture s)
           (case boundTexture s of None \<Rightarrow> None | Some t \<Rightarrow> texture_content s t)) s"

definition video_of :: "xr_frame \<Rightarrow> video_el \<Rightarrow> video" where
  "video_of f v = (case v of LeftVideo \<Rightarrow> leftVideo f | RightVideo \<Rightarrow> rightVideo f)"


definition updateTextureFromVideo :: "xr_frame \<Rightarrow> texture \<Rightarrow> video_el \<Rightarrow> client \<Rightarrow> client" where
  "updateTextureFromVideo f tex v s =
    (if readyState (video_of f v) < 2 \<or> videoWidth (video_of f v) = 0
        \<or> videoHeight (video_of f v) = 0 then
       (let s1 = (if v = LeftVideo \<and> \<not> hasLoggedLeftVideo s
                  then (setStatus ''Left video not ready yet'' s)\<lparr>hasLoggedLeftVideo := True\<rparr>
                  else s)
        in if v = RightVideo \<and> \<not> hasLoggedRightVideo s1
           then (setStatus ''Right video not ready yet'' s1)\<lparr>hasLoggedRightVideo := True\<rparr>
           else s1)
     else (let s1 = bindTexture tex s
           in case texImageError f v of
                None \<Rightarrow> texImage2D tex v (currentFrame (video_of f v)) s1
              | Some e \<Rightarrow> emit (ConsoleError ''Error updating texture from video:'' e) s1))"

text \<open>One round of the loop over the views: \<^verbatim>\<open>viewport.x\<close> of \<^verbatim>\<open>null\<close> is a TypeError.\<close>

definition render_view :: "xr_frame \<Rightarrow> xr_view \<Rightarrow> client \<Rightarrow> exn option \<times> client" where
  "render_view f view s =
    (case layerViewport view of
       None \<Rightarrow> (Some (TypeError ''viewport.x''), s)
     | Some viewport \<Rightarrow>
        (let s1 = gl (Viewport viewport) s;
             isLeft = (eye view = ''left'');
             s2 = (if isLeft
                   then bindTexture LeftTexture
                          (gl ActiveTexture (updateTextureFromVideo f LeftTexture LeftVideo s1))
                   else bindTexture RightTexture
                          (gl ActiveTexture (updateTextureFromVideo f RightTexture RightVideo s1)));
             s3 = (if samplerLoc s2 then gl Uniform1i s2 else s2);
             offset = (if isLeft then texOffsetLeft s3 else texOffsetRight s3);
             s4 = (if uTexOffsetLoc s3
                   then gl (Uniform2fv (case offset of Some v \<Rightarrow> v | None \<Rightarrow> (0, 0))) s3
                   else s3)
         in (None, drawArrays s4)))"

fun render_views :: "xr_frame \<Rightarrow> xr_view list \<Rightarrow> client \<Rightarrow> exn option \<times> client" where
  "render_views f [] s = (None, s)"
| "render_views f (view # rest) s =
     (case render_view f view s of
        (Some e, s') \<Rightarrow> (Some e, s')
      | (None, s') \<Rightarrow> render_views f rest s')"

text \<open>The body of the \<^verbatim>\<open>try\<close> block of \<^verbatim>\<open>onXRFrame\<close>: the exception that leaves it, if any.\<close>

definition frame_body :: "xr_frame \<Rightarrow> client \<Rightarrow> exn option \<times> client" where
  "frame_body f s =
    (case viewerPose f of
       Inl e \<Rightarrow> (Some e, s)
     | Inr None \<Rightarrow> (None, emit RequestAnimationFrame s)
     | Inr (Some pose) \<Rightarrow>
        (case sendPose f pose s of
           (Some e, s1) \<Rightarrow> (Some e, s1)
         | (None, s1) \<Rightarrow>
            (let s2 = sendControllerData f (inputSources f) s1
             in if \<not> samplerLoc s2 then
                  (None, emit RequestAnimationFrame (setStatus ''Waiting for GL sampler'' s2))
                else
                  (let s3 = gl UseProgram (gl Clear (gl ClearColor (gl BindFramebuffer s2)));
                       s4 = (if 0 \<le> positionAttrLoc s3
                             then gl VertexAttribPointer
                                    (gl BindBuffer (gl EnableVertexAttribArray s3))
                             else s3)
                   in case render_views f (views pose) s4 of
                        (Some e, s5) \<Rightarrow> (Some e, s5)
                      | (None, s5) \<Rightarrow> (None, emit RequestAnimationFrame s5)))))"

text \<open>
  \<^verbatim>\<open>onXRFrame\<close>: the \<^verbatim>\<open>catch\<close> clause logs the exception. The result carries the
  exception that escapes the handler, and none does.
\<close>

definition onXRFrame :: "xr_frame \<Rightarrow> client \<Rightarrow> exn option \<times> client" where
  "onXRFrame f s =
    (case frame_body f s of
       (None, s') \<Rightarrow> (None, s')
     | (Some e, s') \<Rightarrow> (None, logError ''XR frame error'' (Some e) s'))"

section \<open>The session as a sequence of events\<close>

text \<open>
  After startup the program runs only in its handlers: a frame callback, the three
  handlers of the data channel (before \<^verbatim>\<open>open\<close> and \<^verbatim>\<open>close\<close> are delivered the
  browser has set the channel's \<^verbatim>\<open>readyState\<close>, and it sets \<^verbatim>\<open>closing\<close> with no event
  the program listens to), and the \<^verbatim>\<open>track\<close> handler.
\<close>

datatype event =
    XRFrame xr_frame
  | DataChannelOpen
  | DataChannelClosing
  | DataChannelClose
  | DataChannelMessage string
  | Track track_event

definition set_readyState :: "string \<Rightarrow> client \<Rightarrow> client" where
  "set_readyState st s =
     (case dataChannel s of
        None \<Rightarrow> s
      | Some c \<Rightarrow> s\<lparr>dataChannel := Some (c\<lparr>dc_readyState := st\<rparr>)\<rparr>)"

fun handle :: "event \<Rightarrow> client \<Rightarrow> client" where
  "handle (XRFrame f) s = snd (onXRFrame f s)"
| "handle DataChannelOpen s = setStatus ''Data channel open'' (set_readyState ''open'' s)"
| "handle DataChannelClosing s = set_readyState ''closing'' s"
| "handle DataChannelClose s =
     setStatus ''Data channel closed'' ((set_readyState ''closed'' s)\<lparr>dataChannel := None\<rparr>)"
| "handle (DataChannelMessage d) s = logToOverlay (Plain (''Server: '' @ d)) ''info'' s"
| "handle (Track ev) s = ontrack ev s"

fun run :: "event list \<Rightarrow> client \<Rightarrow> client" where
  "run [] s = s"
| "run (ev # evs) s = run evs (handle ev s)"

section \<open>Observations on a run\<close>

text \<open>
  What the statements below speak about: how often the next frame has been requested, the
  messages handed to the data channel, and how often the stall of a video has been
  reported.
\<close>

definition requested :: "client \<Rightarrow> nat" where
  "requested s = length (filter (\<lambda>e. e = RequestAnimationFrame) (trace s))"

fun is_send :: "effect \<Rightarrow> bool" where
  "is_send (Send _) = True"
| "is_send _ = False"

definition sends :: "client \<Rightarrow> effect list" where
  "sends s = filter is_send (trace s)"

definition stall_text :: "video_el \<Rightarrow> string" where
  "stall_text v =
     (case v of LeftVideo \<Rightarrow> ''Left video not ready yet''
              | RightVideo \<Rightarrow> ''Right video not ready yet'')"

definition stalls :: "video_el \<Rightarrow> client \<Rightarrow> nat" where
  "stalls v s = length (filter (\<lambda>e. e = SetStatus (stall_text v)) (trace s))"

text \<open>
  The flags \<^verbatim>\<open>hasLoggedLeftVideo\<close> and \<^verbatim>\<open>hasLoggedRightVideo\<close> account for the reports made
  so far.
\<close>

definition stall_logged_once :: "client \<Rightarrow> bool" where
  "stall_logged_once s =
     (stalls LeftVideo s \<le> (if hasLoggedLeftVideo s then 1 else 0) \<and>
      stalls RightVideo s \<le> (if hasLoggedRightVideo s then 1 else 0))"

text \<open>
  The variables that no handler of the running session assigns, and two relations between
  the states before and after a piece of the frame: \<open>calm\<close> for the pieces that neither
  send nor reschedule, \<open>steady\<close> for those that send only on an open channel.
\<close>

definition same_config :: "client \<Rightarrow> client \<Rightarrow> bool" where
  "same_config s s' =
     (glReady s' = glReady s \<and> uTexOffsetLoc s' = uTexOffsetLoc s \<and>
      samplerLoc s' = samplerLoc s \<and> positionAttrLoc s' = positionAttrLoc s \<and>
      texOffsetLeft s' = texOffsetLeft s \<and> texOffsetRight s' = texOffsetRight s \<and>
      calib s' = calib s \<and> dataChannel s' = dataChannel s \<and>
      videoCount s' = videoCount s \<and> leftVideoSrc s' = leftVideoSrc s \<and>
      rightVideoSrc s' = rightVideoSrc s)"

definition calm :: "client \<Rightarrow> client \<Rightarrow> bool" where
  "calm s s' =
     (same_config s s' \<and> sends s' = sends s \<and> requested s' = requested s \<and>
      (stall_logged_once s \<longrightarrow> stall_logged_once s'))"

definition steady :: "client \<Rightarrow> client \<Rightarrow> bool" where
  "steady s s' =
     (same_config s s' \<and> (\<not> channel_open s \<longrightarrow> sends s' = sends s) \<and>
      (stall_logged_once s \<longrightarrow> stall_logged_once s'))"

text \<open>
  The body of a frame in stages: the telemetry, the calls that precede the loop over the
  views, and one round of that loop.
\<close>

definition after_telemetry :: "xr_frame \<Rightarrow> xr_pose \<Rightarrow> client \<Rightarrow> client" where
  "after_telemetry f p s = sendControllerData f (inputSources f) (snd (sendPose f p s))"

definition before_views :: "client \<Rightarrow> client" where
  "before_views s2 =
     (let s3 = gl UseProgram (gl Clear (gl ClearColor (gl BindFramebuffer s2)))
      in if 0 \<le> positionAttrLoc s3
         then gl VertexAttribPointer (gl BindBuffer (gl EnableVertexAttribArray s3))
         else s3)"





text \<open>
  The uploads into a texture, the draws with a texture bound, and a relation for the
  pieces of a frame that leave a texture and these two lists as they are.
\<close>

fun is_upload_to :: "texture \<Rightarrow> effect \<Rightarrow> bool" where
  "is_upload_to t (GL (TexImage2D t' _ _)) = (t' = t)"
| "is_upload_to t _ = False"

definition uploads :: "texture \<Rightarrow> client \<Rightarrow> effect list" where
  "uploads t s = filter (is_upload_to t) (trace s)"

fun is_draw_with :: "texture \<Rightarrow> effect \<Rightarrow> bool" where
  "is_draw_with t (GL (DrawArrays bt _)) = (bt = Some t)"
| "is_draw_with t _ = False"

definition draws_with :: "texture \<Rightarrow> client \<Rightarrow> effect list" where
  "draws_with t s = filter (is_draw_with t) (trace s)"

definition still :: "texture \<Rightarrow> client \<Rightarrow> client \<Rightarrow> bool" where
  "still t s s' =
     (texture_content s' t = texture_content s t \<and> uploads t s' = uploads t s \<and>
      draws_with t s' = draws_with t s)"


text \<open>
  For the \<^verbatim>\<open>track\<close> handler: the \<^verbatim>\<open>mid\<close> an event exposes, the events that are video
  tracks, and the \<^verbatim>\<open>srcObject\<close> of a video element.
\<close>

definition mid_of :: "track_event \<Rightarrow> string option" where
  "mid_of ev = (case transceiver ev of None \<Rightarrow> None | Some t \<Rightarrow> mid t)"

fun is_video_track :: "event \<Rightarrow> bool" where
  "is_video_track (Track ev) = (kind ev = ''video'')"
| "is_video_track _ = False"

definition srcObject :: "video_el \<Rightarrow> client \<Rightarrow> nat option" where
  "srcObject v s = (case v of LeftVideo \<Rightarrow> leftVideoSrc s | RightVideo \<Rightarrow> rightVideoSrc s)"

text \<open>
  The test of \<^verbatim>\<open>loadCalibration\<close> on a parsed payload, the answers of the server that
  pass it, and the payload an answer carries.
\<close>

definition valid_calibration :: "jsval \<Rightarrow> bool" where
  "valid_calibration v =
     (truthy v \<and> truthy (get_prop v ''k_left'') \<and> truthy (get_prop v ''k_right'') \<and>
      typeof (get_prop v ''baseline_m'') = ''number'')"

definition accepted :: "exn + fetch_response \<Rightarrow> bool" where
  "accepted fetched =
     (case fetched of
        Inl e \<Rightarrow> False
      | Inr res \<Rightarrow> ok res \<and> (case json res of Inl e \<Rightarrow> False | Inr v \<Rightarrow> valid_calibration v))"

definition payload_of :: "exn + fetch_response \<Rightarrow> jsval" where
  "payload_of fetched =
     (case fetched of
        Inl e \<Rightarrow> JUndefined
      | Inr res \<Rightarrow> (case json res of Inl e \<Rightarrow> JUndefined | Inr v \<Rightarrow> v))"

text \<open>
  For the controller message: the stick an input source contributes to a hand, the stick a
  list of sources leaves in the message (the last contribution, or the default), the keys
  an input source sets, and one round of the loop in stages.
\<close>

definition stick_of :: "string \<Rightarrow> input_source \<Rightarrow> (rat \<times> rat) option" where
  "stick_of hand inputSource =
     (case gamepad inputSource of
        None \<Rightarrow> None
      | Some g \<Rightarrow>
          if handedness inputSource = hand \<and> 4 \<le> length (axes g)
          then Some (axes g ! 2, - (axes g ! 3)) else None)"

definition joystick_of :: "string \<Rightarrow> input_source list \<Rightarrow> rat \<times> rat" where
  "joystick_of hand srcs =
     (case rev (List.map_filter (stick_of hand) srcs) of [] \<Rightarrow> (0, 0) | st # _ \<Rightarrow> st)"

definition pressed_keys :: "input_source \<Rightarrow> string list" where
  "pressed_keys inputSource =
     (case gamepad inputSource of
        None \<Rightarrow> []
      | Some g \<Rightarrow>
          (let hand = handedness inputSource; btns = gp_buttons g
           in (if pressed_at btns 0 then [hand @ ''_trigger''] else []) @
              (if pressed_at btns 1 then [hand @ ''_grip''] else []) @
              (if pressed_at btns 4 then [''plow_up''] else []) @
              (if pressed_at btns 5 then [''plow_down''] else []) @
              (if hand = ''right'' \<and> pressed_at btns 1 then [''lights''] else []) @
              (if hand = ''left'' \<and> pressed_at btns 1 then [''horn''] else [])))"

definition press :: "bool \<Rightarrow> string \<Rightarrow> controller_message \<Rightarrow> controller_message" where
  "press c key m = (if c then set_button key m else m)"

definition move_sticks :: "string \<Rightarrow> xr_gamepad \<Rightarrow> controller_message \<Rightarrow> controller_message" where
  "move_sticks hand g m =
     (if 4 \<le> length (axes g) then
        (let stick = (axes g ! 2, - (axes g ! 3));
             ma = (if hand = ''left'' then m\<lparr>leftJoystick := stick\<rparr> else m)
         in if hand = ''right'' then ma\<lparr>rightJoystick := stick\<rparr> else ma)
      else m)"

section \<open>Concrete inputs\<close>


text \<open>
  A signalling answer without an error, a client whose channel has opened, and one whose
  WebGL resources are set up as well.
\<close>

definition answer_ok :: rtc_env where
  "answer_ok =
     \<lparr>answer = Inr (JObj [(''sdp'', JStr ''v=0''), (''type'', JStr ''answer'')]),
      setRemoteDescriptionError = None\<rparr>"

definition open_client :: client where
  "open_client =
     init_client\<lparr>dataChannel := Some ((createDataChannel ''poseData'' True (Some 0))
                                        \<lparr>dc_readyState := ''open''\<rparr>)\<rparr>"

definition ready_client :: client where
  "ready_client =
     open_client\<lparr>glReady := True, uTexOffsetLoc := True, samplerLoc := True,
                  positionAttrLoc := 0, leftTexture := Some DefaultCanvas,
                  rightTexture := Some DefaultCanvas, boundTexture := Some RightTexture\<rparr>"

text \<open>
  A left controller with the stick pushed and the grip pressed, a video element with no
  frame yet, and three frames: one without a pose, one with a pose of two views while
  neither video is decodable, and the same with a data channel that rejects every
  message.
\<close>

definition left_controller :: input_source where
  "left_controller =
     \<lparr>gamepad = Some \<lparr>axes = [0, 0, 1 / 2, 1 / 4],
                       gp_buttons = [\<lparr>pressed = False\<rparr>, \<lparr>pressed = True\<rparr>]\<rparr>,
      handedness = ''left''\<rparr>"

definition not_ready :: video where
  "not_ready = \<lparr>readyState = 0, videoWidth = 0, videoHeight = 0, currentFrame = 0\<rparr>"

definition quiet_frame :: xr_frame where
  "quiet_frame =
     \<lparr>viewerPose = Inr None, inputSources = [left_controller], leftVideo = not_ready,
      rightVideo = not_ready, sendError = (\<lambda>m. None), texImageError = (\<lambda>v. None),
      now = 1000\<rparr>"





text \<open>
  Calibration payloads, the response that serves one, and a startup in which everything
  but the payload is in order.
\<close>

definition intrinsics :: jsval where
  "intrinsics =
     JArr [JArr [JNum 800, JNum 0, JNum 640], JArr [JNum 0, JNum 800, JNum 360],
           JArr [JNum 0, JNum 0, JNum 1]]"

definition good_payload :: jsval where
  "good_payload =
     JObj [(''k_left'', intrinsics), (''k_right'', intrinsics), (''baseline_m'', JNum (3 / 40))]"

definition string_k_left :: jsval where
  "string_k_left =
     JObj [(''k_left'', JStr ''none''), (''k_right'', intrinsics), (''baseline_m'', JNum (3 / 40))]"

definition served :: "jsval \<Rightarrow> exn + fetch_response" where
  "served v = Inr \<lparr>ok = True, status = 200, json = Inr v\<rparr>"

definition gl_ok :: gl_env where
  "gl_ok =
     \<lparr>contextAvailable = True, buildError = None, uTexOffsetFound = True,
      samplerFound = True, positionAttr = 0\<rparr>"

definition startup_with :: "jsval \<Rightarrow> xr_env" where
  "startup_with v =
     \<lparr>xrSupported = True, rtc = answer_ok, calibrationFetch = served v, glInit = gl_ok\<rparr>"

text \<open>
Video tracks without and with a \<^verbatim>\<open>mid\<close>.
\<close>

definition track_no_mid :: "nat \<Rightarrow> track_event" where
  "track_no_mid n = \<lparr>kind = ''video'', trackId = n, transceiver = Some \<lparr>mid = None\<rparr>\<rparr>"

definition track_mid :: "string \<Rightarrow> nat \<Rightarrow> track_event" where
  "track_mid m n = \<lparr>kind = ''video'', trackId = n, transceiver = Some \<lparr>mid = Some m\<rparr>\<rparr>"

section \<open>Lemmas\<close>

subsection \<open>Rounding\<close>

text \<open>
  The binary64 and binary32 values nearest to one tenth, and a tie between two binary32
  neighbours.
\<close>

lemma rne_tenth:
  "rne 53 (- 1022) (1 / 10) = 3602879701896397 / 36028797018963968"
  "rne 24 (- 126) (1 / 10) = 13421773 / 134217728"
  "rne 24 (- 126) (1 + 1 / 2 ^ 24) = 1"
  "rne 24 (- 126) (1 + 3 / 2 ^ 24) = 1 + 1 / 2 ^ 22"
  by code_simp+

text \<open>
  The exponent found by \<open>binade\<close> is the binary exponent, and \<open>rne\<close> is a rounding to
  nearest: its result is a multiple of the spacing of the format, within half a spacing of
  the argument, a tie going to the even multiple by \<open>round_half_even\<close>; it commutes with
  the sign, and in the normal range the error is at most \<open>2 ^ - p\<close> of the argument.
\<close>

lemma pow2_powi: "pow2 k = 2 powi k"
  by (simp add: pow2_def power_int_def field_simps)

lemma pow2_pos [simp]: "0 < pow2 k"
  by (simp add: pow2_powi)

lemma pow2_nonzero [simp]: "pow2 k \<noteq> 0"
  by (metis pow2_pos less_irrefl)

lemma pow2_nonneg [simp]: "0 \<le> pow2 k"
  by (rule less_imp_le) (rule pow2_pos)

lemma pow2_add: "pow2 (i + j) = pow2 i * pow2 j"
  by (simp add: pow2_powi power_int_add)

lemma pow2_diff: "pow2 (i - j) = pow2 i / pow2 j"
  by (simp add: pow2_powi power_int_diff)

lemma pow2_nat: "pow2 (int n) = 2 ^ n"
  by (simp add: pow2_def)

lemma bitlen_pow2:
  assumes "0 < a"
  shows "pow2 (bitlen a - 1) \<le> of_int a" and "of_int a < pow2 (bitlen a)"
proof -
  from bitlen_bounds [OF assms]
  have 1: "2 ^ nat (bitlen a - 1) \<le> a" and 2: "a < 2 ^ nat (bitlen a)" by simp_all
  have p: "1 \<le> bitlen a" using assms by (simp add: bitlen_alt_def)
  have "(of_int (2 ^ nat (bitlen a - 1)) :: rat) \<le> of_int a"
    using 1 by (simp only: of_int_le_iff)
  then show "pow2 (bitlen a - 1) \<le> of_int a"
    using p by (simp add: pow2_def)
  have "(of_int a :: rat) < of_int (2 ^ nat (bitlen a))"
    using 2 by (simp only: of_int_less_iff)
  then show "of_int a < pow2 (bitlen a)"
    using p by (simp add: pow2_def)
qed

lemma binade_bounds:
  assumes "x \<noteq> 0"
  shows "pow2 (binade x) \<le> \<bar>x\<bar> \<and> \<bar>x\<bar> < pow2 (binade x + 1)"
proof -
  obtain a b where q: "quotient_of \<bar>x\<bar> = (a, b)" by (cases "quotient_of \<bar>x\<bar>")
  have b: "0 < b" using q by (rule quotient_of_denom_pos)
  have x: "\<bar>x\<bar> = of_int a / of_int b" using q by (rule quotient_of_div)
  have a: "0 < a"
  proof -
    have "0 < \<bar>x\<bar>" using assms by simp
    with x b show ?thesis by (simp add: zero_less_divide_iff)
  qed
  let ?k = "bitlen a - bitlen b"
  note ba = bitlen_pow2 [OF a] and bb = bitlen_pow2 [OF b]
  have lo: "pow2 (?k - 1) \<le> \<bar>x\<bar>"
  proof -
    have "pow2 (?k - 1) = pow2 (bitlen a - 1) / pow2 (bitlen b)"
      by (simp add: pow2_diff [symmetric] algebra_simps)
    also have "\<dots> \<le> of_int a / of_int b"
      using ba(1) bb(2) a b by (intro frac_le) simp_all
    finally show ?thesis by (simp add: x)
  qed
  have hi: "\<bar>x\<bar> < pow2 (?k + 1)"
  proof -
    have "of_int a / of_int b < pow2 (bitlen a) / pow2 (bitlen b - 1)"
      using ba(2) bb(1) a b by (intro frac_less) simp_all
    also have "\<dots> = pow2 (?k + 1)"
      by (simp add: pow2_diff [symmetric] algebra_simps)
    finally show ?thesis by (simp add: x)
  qed
  show ?thesis
  proof (cases "pow2 ?k \<le> \<bar>x\<bar>")
    case True
    with hi q show ?thesis by (simp add: binade_def)
  next
    case False
    with lo q show ?thesis by (simp add: binade_def)
  qed
qed

lemma round_half_even_near: "\<bar>of_int (round_half_even q) - q\<bar> \<le> 1 / 2"
proof -
  have "of_int \<lfloor>q\<rfloor> \<le> q" and "q < of_int \<lfloor>q\<rfloor> + 1"
    by linarith+
  then show ?thesis
    by (auto simp: round_half_even_def Let_def abs_le_iff)
qed

lemma round_half_even_neg: "round_half_even (- q) = - round_half_even q"
proof (cases "q = of_int \<lfloor>q\<rfloor>")
  case True
  then obtain n where "q = of_int n" ..
  then show ?thesis by (simp add: round_half_even_def)
next
  case False
  then have f: "\<lfloor>- q\<rfloor> = - \<lfloor>q\<rfloor> - 1"
    by (metis ceiling_altdef ceiling_def minus_diff_eq minus_minus uminus_add_conv_diff) 
  show ?thesis
    unfolding round_half_even_def Let_def f
    by (auto simp: field_simps)
qed

lemma rne_near:
  "\<bar>rne p emin x - x\<bar> \<le> pow2 (max (binade x) emin - (int p - 1)) / 2"
proof (cases "x = 0")
  case True
  then show ?thesis by (simp add: rne_def)
next
  case False
  let ?u = "pow2 (max (binade x) emin - (int p - 1))"
  have u: "0 < ?u" by simp
  have "rne p emin x - x = (of_int (round_half_even (x / ?u)) - x / ?u) * ?u"
    using False by (simp add: rne_def Let_def left_diff_distrib)
  then have "\<bar>rne p emin x - x\<bar> = \<bar>of_int (round_half_even (x / ?u)) - x / ?u\<bar> * ?u"
    by (simp add: abs_mult)
  also have "\<dots> \<le> 1 / 2 * ?u"
    by (intro mult_right_mono round_half_even_near) simp
  finally show ?thesis by simp
qed

lemma rne_neg: "rne p emin (- x) = - rne p emin x"
  by (simp add: rne_def binade_def round_half_even_neg Let_def)

lemma rne_relative:
  assumes "x \<noteq> 0" and "emin \<le> binade x"
  shows "\<bar>rne p emin x - x\<bar> \<le> \<bar>x\<bar> / 2 ^ p"
proof -
  have "pow2 (max (binade x) emin - (int p - 1)) = pow2 (binade x) / pow2 (int p) * 2"
    using assms(2) by (simp add: max_def pow2_diff pow2_def [of 1])
  with rne_near [of p emin x]
  have "\<bar>rne p emin x - x\<bar> \<le> pow2 (binade x) / pow2 (int p)" by simp
  also have "\<dots> \<le> \<bar>x\<bar> / pow2 (int p)"
    using binade_bounds [OF assms(1)] by (intro divide_right_mono) simp_all
  finally show ?thesis by (simp add: pow2_nat)
qed


subsection \<open>Effects\<close>

lemma emit_simps [simp]:
  "trace (emit e s) = trace s @ [e]"
  "hasLoggedLeftVideo (emit e s) = hasLoggedLeftVideo s"
  "hasLoggedRightVideo (emit e s) = hasLoggedRightVideo s"
  "glReady (emit e s) = glReady s"
  "uTexOffsetLoc (emit e s) = uTexOffsetLoc s"
  "samplerLoc (emit e s) = samplerLoc s"
  "positionAttrLoc (emit e s) = positionAttrLoc s"
  "texOffsetLeft (emit e s) = texOffsetLeft s"
  "texOffsetRight (emit e s) = texOffsetRight s"
  "calib (emit e s) = calib s"
  "dataChannel (emit e s) = dataChannel s"
  "videoCount (emit e s) = videoCount s"
  "leftVideoSrc (emit e s) = leftVideoSrc s"
  "rightVideoSrc (emit e s) = rightVideoSrc s"
  "leftTexture (emit e s) = leftTexture s"
  "rightTexture (emit e s) = rightTexture s"
  "boundTexture (emit e s) = boundTexture s"
  by (simp_all add: emit_def)

lemmas as_emit = gl_def setStatus_def logToOverlay_def logError_def

lemmas observations =
  same_config_def sends_def requested_def stall_logged_once_def stalls_def stall_text_def

lemma channel_open_emit [simp]: "channel_open (emit e s) = channel_open s"
  by (simp add: channel_open_def)

subsection \<open>Pieces of a frame that neither send nor reschedule\<close>

lemma calm_refl [simp]: "calm s s"
  by (simp add: calm_def same_config_def)

lemma calm_trans: "calm s s1 \<Longrightarrow> calm s1 s2 \<Longrightarrow> calm s s2"
  by (simp add: calm_def same_config_def)

lemma calm_gl [simp]: "calm s (gl c s)"
  by (simp add: calm_def observations as_emit)

lemma calm_bindTexture [simp]: "calm s (bindTexture t s)"
  by (simp add: calm_def observations as_emit bindTexture_def)

lemma calm_drawArrays [simp]: "calm s (drawArrays s)"
  by (simp add: calm_def observations as_emit drawArrays_def)

lemma calm_texImage2D [simp]: "calm s (texImage2D t v n s)"
  by (simp add: calm_def observations as_emit texImage2D_def split: texture.split)

lemma calm_emit_other:
  "\<not> is_send e \<Longrightarrow> e \<noteq> RequestAnimationFrame \<Longrightarrow> e \<noteq> SetStatus (stall_text LeftVideo) \<Longrightarrow>
   e \<noteq> SetStatus (stall_text RightVideo) \<Longrightarrow> calm s (emit e s)"
  by (simp add: calm_def same_config_def sends_def requested_def stall_logged_once_def stalls_def)

lemma calm_updateTexture [simp]: "calm s (updateTextureFromVideo f t v s)"
proof (cases "readyState (video_of f v) < 2 \<or> videoWidth (video_of f v) = 0
        \<or> videoHeight (video_of f v) = 0")
  case True
  then show ?thesis
    by (cases v) (auto simp: updateTextureFromVideo_def calm_def observations as_emit Let_def)
next
  case False
  have b: "calm s (bindTexture t s)" by simp
  show ?thesis
  proof (cases "texImageError f v")
    case None
    with False have "updateTextureFromVideo f t v s =
        texImage2D t v (currentFrame (video_of f v)) (bindTexture t s)"
      by (simp add: updateTextureFromVideo_def Let_def)
    with calm_trans [OF b calm_texImage2D] show ?thesis by simp
  next
    case (Some e)
    with False have "updateTextureFromVideo f t v s =
        emit (ConsoleError ''Error updating texture from video:'' e) (bindTexture t s)"
      by (simp add: updateTextureFromVideo_def Let_def)
    moreover have "calm (bindTexture t s)
        (emit (ConsoleError ''Error updating texture from video:'' e) (bindTexture t s))"
      by (rule calm_emit_other) (simp_all add: stall_text_def)
    ultimately show ?thesis using calm_trans [OF b] by simp
  qed
qed

lemma calm_render_view: "calm s (snd (render_view f v s))"
proof (cases "layerViewport v")
  case None
  then show ?thesis by (simp add: render_view_def)
next
  case (Some vp)
  let ?s1 = "gl (Viewport vp) s"
  let ?s2 = "if eye v = ''left''
             then bindTexture LeftTexture
                    (gl ActiveTexture (updateTextureFromVideo f LeftTexture LeftVideo ?s1))
             else bindTexture RightTexture
                    (gl ActiveTexture (updateTextureFromVideo f RightTexture RightVideo ?s1))"
  let ?s3 = "if samplerLoc ?s2 then gl Uniform1i ?s2 else ?s2"
  let ?off = "if eye v = ''left'' then texOffsetLeft ?s3 else texOffsetRight ?s3"
  let ?s4 = "if uTexOffsetLoc ?s3
             then gl (Uniform2fv (case ?off of Some w \<Rightarrow> w | None \<Rightarrow> (0, 0))) ?s3 else ?s3"
  have 1: "calm s ?s1" by simp
  have u: "calm ?s1 (updateTextureFromVideo f t w ?s1)" for t w by simp
  have a: "calm ?s1 (gl ActiveTexture (updateTextureFromVideo f t w ?s1))" for t w
    by (rule calm_trans [OF u calm_gl])
  have b: "calm ?s1 (bindTexture t' (gl ActiveTexture (updateTextureFromVideo f t w ?s1)))"
    for t t' w
    by (rule calm_trans [OF a calm_bindTexture])
  have 2: "calm ?s1 ?s2" using b by simp
  have 3: "calm ?s2 ?s3" by simp
  have 4: "calm ?s3 ?s4" by simp
  have 5: "calm ?s4 (drawArrays ?s4)" by simp
  have "snd (render_view f v s) = drawArrays ?s4"
    using Some by (simp add: render_view_def Let_def)
  moreover have "calm s (drawArrays ?s4)"
    by (rule calm_trans [OF calm_trans [OF calm_trans [OF calm_trans [OF 1 2] 3] 4] 5])
  ultimately show ?thesis by simp
qed

lemma calm_render_views: "calm s (snd (render_views f vs s))"
proof (induction vs arbitrary: s)
  case Nil
  show ?case by simp
next
  case (Cons v vs)
  obtain r1 s1 where rv: "render_view f v s = (r1, s1)" by (cases "render_view f v s")
  have c1: "calm s s1" using calm_render_view [of s f v] rv by simp
  show ?case
  proof (cases r1)
    case None
    with rv have "snd (render_views f (v # vs) s) = snd (render_views f vs s1)" by simp
    with calm_trans [OF c1 Cons.IH [of s1]] show ?thesis by simp
  next
    case (Some e)
    with rv c1 show ?thesis by simp
  qed
qed

lemma calm_before_views: "calm s (before_views s)"
proof -
  have g: "calm s x \<Longrightarrow> calm s (gl c x)" for x c
    by (rule calm_trans [OF _ calm_gl])
  show ?thesis
    by (simp add: before_views_def Let_def g)
qed

subsection \<open>The whole frame\<close>

lemma same_config_channel_open: "same_config s s' \<Longrightarrow> channel_open s' = channel_open s"
  by (simp add: same_config_def channel_open_def)

lemma steady_refl [simp]: "steady s s"
  by (simp add: steady_def same_config_def)

lemma steady_trans: "steady s s1 \<Longrightarrow> steady s1 s2 \<Longrightarrow> steady s s2"
  using same_config_channel_open [of s s1]
  by (simp add: steady_def same_config_def)

lemma calm_steady: "calm s s' \<Longrightarrow> steady s s'"
  by (simp add: calm_def steady_def)

lemma steady_emit:
  "e \<noteq> SetStatus (stall_text LeftVideo) \<Longrightarrow> e \<noteq> SetStatus (stall_text RightVideo) \<Longrightarrow>
   (is_send e \<Longrightarrow> channel_open s) \<Longrightarrow> steady s (emit e s)"
  by (auto simp: steady_def same_config_def sends_def stall_logged_once_def stalls_def)

lemma steady_sendPose: "steady s (snd (sendPose f p s))"
  by (auto simp: sendPose_def Let_def split: option.split intro!: steady_emit)


lemma steady_sendControllerData: "steady s (sendControllerData f srcs s)"
  by (auto simp: sendControllerData_def Let_def as_emit split: option.split intro!: steady_emit)



lemma frame_body_cases:
  "frame_body f s =
     (case viewerPose f of
        Inl e \<Rightarrow> (Some e, s)
      | Inr None \<Rightarrow> (None, emit RequestAnimationFrame s)
      | Inr (Some p) \<Rightarrow>
          (case fst (sendPose f p s) of
             Some e \<Rightarrow> (Some e, snd (sendPose f p s))
           | None \<Rightarrow>
               if \<not> samplerLoc (after_telemetry f p s) then
                 (None, emit RequestAnimationFrame
                          (setStatus ''Waiting for GL sampler'' (after_telemetry f p s)))
               else (case fst (render_views f (views p) (before_views (after_telemetry f p s))) of
                       Some e \<Rightarrow>
                         (Some e, snd (render_views f (views p)
                                         (before_views (after_telemetry f p s))))
                     | None \<Rightarrow>
                         (None, emit RequestAnimationFrame
                                  (snd (render_views f (views p)
                                          (before_views (after_telemetry f p s))))))))"
  by (simp add: frame_body_def after_telemetry_def before_views_def Let_def
      split: sum.split option.split prod.split)

lemma steady_after_telemetry: "steady s (after_telemetry f p s)"
  unfolding after_telemetry_def
  by (rule steady_trans [OF steady_sendPose steady_sendControllerData])


lemma steady_views: "steady s (snd (render_views f vs (before_views s)))"
  by (rule calm_steady [OF calm_trans [OF calm_before_views calm_render_views]])


lemma steady_frame_body: "steady s (snd (frame_body f s))"
proof -
  have e: "steady s x \<Longrightarrow> steady s (emit RequestAnimationFrame x)" for x
    by (rule steady_trans [OF _ steady_emit]) simp_all
  have w: "steady s x \<Longrightarrow> steady s (setStatus ''Waiting for GL sampler'' x)" for x
    unfolding setStatus_def
    by (rule steady_trans [OF _ steady_emit]) (simp_all add: stall_text_def)
  have v: "steady s (snd (render_views f vs (before_views (after_telemetry f p s))))" for vs p
    by (rule steady_trans [OF steady_after_telemetry steady_views])
  show ?thesis
    by (simp add: frame_body_cases e w v steady_sendPose steady_after_telemetry
        split: sum.split option.split)
qed


lemma onXRFrame_cases:
  "onXRFrame f s =
     (None, case fst (frame_body f s) of
              None \<Rightarrow> snd (frame_body f s)
            | Some e \<Rightarrow> logError ''XR frame error'' (Some e) (snd (frame_body f s)))"
  by (simp add: onXRFrame_def split: prod.split option.split)

lemma steady_onXRFrame: "steady s (snd (onXRFrame f s))"
proof -
  have "steady s x \<Longrightarrow> steady s (logError m e x)" for x m e
    unfolding logError_def
    by (rule steady_trans [OF _ steady_emit]) simp_all
  with steady_frame_body [of s f] show ?thesis
    by (simp add: onXRFrame_cases split: option.split)
qed

subsection \<open>Events\<close>




lemma closed_handle:
  assumes "dataChannel s = None"
  shows "dataChannel (handle ev s) = None \<and> sends (handle ev s) = sends s"
proof (cases ev)
  case (XRFrame f)
  from assms have "\<not> channel_open s" by (simp add: channel_open_def)
  with steady_onXRFrame [of s f] assms XRFrame show ?thesis
    by (simp add: steady_def same_config_def)
next
  case (Track tev)
  with assms show ?thesis
    by (auto simp: ontrack_def Let_def setStatus_def sends_def split: video_el.split)
qed (use assms in \<open>auto simp: set_readyState_def as_emit sends_def split: option.split\<close>)

lemma closed_run:
  "dataChannel s = None \<Longrightarrow> dataChannel (run evs s) = None \<and> sends (run evs s) = sends s"
proof (induction evs arbitrary: s)
  case Nil
  then show ?case by simp
next
  case (Cons ev evs)
  from closed_handle [OF Cons.prems, of ev] Cons.IH [of "handle ev s"]
  show ?case by simp
qed

lemma videoCount_handle:
  "videoCount (handle ev s) = videoCount s + (if is_video_track ev then 1 else 0)"
proof (cases ev)
  case (XRFrame f)
  with steady_onXRFrame [of s f] show ?thesis
    by (simp add: steady_def same_config_def)
next
  case (Track tev)
  then show ?thesis
    by (simp add: ontrack_def Let_def setStatus_def split: video_el.split)
qed (simp_all add: set_readyState_def as_emit split: option.split)

lemma videoCount_run:
  "videoCount (run evs s) = videoCount s + length (filter is_video_track evs)"
  by (induction evs arbitrary: s) (simp_all add: videoCount_handle)

subsection \<open>A texture whose video is not decodable\<close>


lemma still_refl [simp]: "still t s s"
  by (simp add: still_def)

















subsection \<open>Calibration\<close>

lemma loadCalibration_accepts:
  "(fst (loadCalibration fetched s) = None) = accepted fetched"
  by (auto simp: loadCalibration_def accepted_def valid_calibration_def Let_def
      split: sum.split)

lemma loadCalibration_calib:
  "fst (loadCalibration fetched s) = None \<Longrightarrow>
     calib (snd (loadCalibration fetched s)) = payload_of fetched"
  by (auto simp: loadCalibration_def payload_of_def Let_def as_emit
      split: sum.splits if_splits)

lemma initGLResources_calib: "calib (snd (initGLResources env s)) = calib s"
  by (simp add: initGLResources_def split: option.split)

lemma startXR_reaches:
  assumes "fst (startXR env s) = CalculatorCalled kl kr b"
  shows "accepted (calibrationFetch env)"
    and "kl = get_prop (payload_of (calibrationFetch env)) ''k_left''"
    and "kr = get_prop (payload_of (calibrationFetch env)) ''k_right''"
    and "b = get_prop (payload_of (calibrationFetch env)) ''baseline_m''"
proof -
  obtain r1 s1 where w: "startWebRTC (rtc env) s = (r1, s1)"
    by (cases "startWebRTC (rtc env) s")
  obtain r2 s2 where l: "loadCalibration (calibrationFetch env) s1 = (r2, s2)"
    by (cases "loadCalibration (calibrationFetch env) s1")
  from assms w l have r2: "r2 = None"
    by (auto simp: startXR_def split: if_splits option.splits prod.splits)
  with l loadCalibration_accepts [of "calibrationFetch env" s1]
  show "accepted (calibrationFetch env)" by simp
  from l r2 loadCalibration_calib [of "calibrationFetch env" s1]
  have c: "calib s2 = payload_of (calibrationFetch env)" by simp
  have c3: "calib (snd (if \<not> glReady s2 then initGLResources (glInit env) s2 else (None, s2)))
              = payload_of (calibrationFetch env)"
    using c by (simp add: initGLResources_calib)
  from assms w l r2 c3
  show "kl = get_prop (payload_of (calibrationFetch env)) ''k_left''"
    and "kr = get_prop (payload_of (calibrationFetch env)) ''k_right''"
    and "b = get_prop (payload_of (calibrationFetch env)) ''baseline_m''"
    by (auto simp: startXR_def split: if_splits option.splits prod.splits)
qed

lemma startXR_served:
  "fst (startXR (startup_with v) init_client) =
     (if valid_calibration v
      then CalculatorCalled (get_prop v ''k_left'') (get_prop v ''k_right'')
             (get_prop v ''baseline_m'')
      else StartupFailed (Error ''Calibration payload missing required fields''))"
  by (simp add: startXR_def startup_with_def startWebRTC_def answer_ok_def served_def
      loadCalibration_def valid_calibration_def initGLResources_def gl_ok_def init_client_def
      as_emit emit_def Let_def)

lemma typeof_number: "(typeof v = ''number'') = (\<exists>n. v = JNum n)"
  by (cases v) simp_all

lemma accepted_payload: "accepted fetched \<Longrightarrow> valid_calibration (payload_of fetched)"
  by (auto simp: accepted_def payload_of_def split: sum.splits)

subsection \<open>The controller message\<close>

lemma controller_step_stages:
  "controller_step src m =
     (case gamepad src of
        None \<Rightarrow> m
      | Some g \<Rightarrow>
          press (handedness src = ''left'' \<and> pressed_at (gp_buttons g) 1) ''horn''
            (press (handedness src = ''right'' \<and> pressed_at (gp_buttons g) 1) ''lights''
               (press (pressed_at (gp_buttons g) 5) ''plow_down''
                  (press (pressed_at (gp_buttons g) 4) ''plow_up''
                     (press (pressed_at (gp_buttons g) 1) (handedness src @ ''_grip'')
                        (press (pressed_at (gp_buttons g) 0) (handedness src @ ''_trigger'')
                           (move_sticks (handedness src) g m)))))))"
  unfolding controller_step_def press_def move_sticks_def Let_def ..

lemma press_fields [simp]:
  "msg_type (press c k m) = msg_type m"
  "timestamp (press c k m) = timestamp m"
  "leftJoystick (press c k m) = leftJoystick m"
  "rightJoystick (press c k m) = rightJoystick m"
  by (simp_all add: press_def set_button_def)

lemma press_buttons [simp]:
  "map_of (buttons (press c k m)) k' =
     (if c \<and> k' = k then Some True else map_of (buttons m) k')"
  by (simp add: press_def set_button_def update_conv')

lemma update_all_true: "list_all snd al \<Longrightarrow> list_all snd (AList.update k True al)"
  by (induction al) auto

lemma press_true [simp]: "list_all snd (buttons m) \<Longrightarrow> list_all snd (buttons (press c k m))"
  by (simp add: press_def set_button_def update_all_true)

lemma move_sticks_fields [simp]:
  "msg_type (move_sticks h g m) = msg_type m"
  "timestamp (move_sticks h g m) = timestamp m"
  "buttons (move_sticks h g m) = buttons m"
  by (simp_all add: move_sticks_def Let_def)

lemma move_sticks_sticks:
  "leftJoystick (move_sticks h g m) =
     (if h = ''left'' \<and> 4 \<le> length (axes g) then (axes g ! 2, - (axes g ! 3))
      else leftJoystick m)"
  "rightJoystick (move_sticks h g m) =
     (if h = ''right'' \<and> 4 \<le> length (axes g) then (axes g ! 2, - (axes g ! 3))
      else rightJoystick m)"
  by (simp_all add: move_sticks_def Let_def)

lemma controller_step_head:
  "msg_type (controller_step src m) = msg_type m"
  "timestamp (controller_step src m) = timestamp m"
  by (simp_all add: controller_step_stages split: option.split)

lemma controller_step_sticks:
  "leftJoystick (controller_step src m) =
     (case stick_of ''left'' src of None \<Rightarrow> leftJoystick m | Some st \<Rightarrow> st)"
  "rightJoystick (controller_step src m) =
     (case stick_of ''right'' src of None \<Rightarrow> rightJoystick m | Some st \<Rightarrow> st)"
  by (simp_all add: controller_step_stages stick_of_def move_sticks_sticks split: option.split)

lemma controller_step_true:
  "list_all snd (buttons m) \<Longrightarrow> list_all snd (buttons (controller_step src m))"
  by (simp add: controller_step_stages split: option.split)

lemma in_pressed_keys:
  "k \<in> set (pressed_keys src) =
     (case gamepad src of
        None \<Rightarrow> False
      | Some g \<Rightarrow>
          (pressed_at (gp_buttons g) 0 \<and> k = handedness src @ ''_trigger'') \<or>
          (pressed_at (gp_buttons g) 1 \<and> k = handedness src @ ''_grip'') \<or>
          (pressed_at (gp_buttons g) 4 \<and> k = ''plow_up'') \<or>
          (pressed_at (gp_buttons g) 5 \<and> k = ''plow_down'') \<or>
          (handedness src = ''right'' \<and> pressed_at (gp_buttons g) 1 \<and> k = ''lights'') \<or>
          (handedness src = ''left'' \<and> pressed_at (gp_buttons g) 1 \<and> k = ''horn''))"
  by (cases "gamepad src") (auto simp: pressed_keys_def Let_def)

lemma controller_step_buttons:
  "map_of (buttons (controller_step src m)) k =
     (if k \<in> set (pressed_keys src) then Some True else map_of (buttons m) k)"
  unfolding in_pressed_keys
  by (cases "gamepad src") (auto simp: controller_step_stages)

lemma controller_loop_head:
  "msg_type (controller_loop srcs m) = msg_type m \<and>
   timestamp (controller_loop srcs m) = timestamp m"
  by (induction srcs arbitrary: m) (simp_all add: controller_step_head)

lemma controller_loop_sticks:
  "leftJoystick (controller_loop srcs m) =
     (case rev (List.map_filter (stick_of ''left'') srcs) of
        [] \<Rightarrow> leftJoystick m | st # _ \<Rightarrow> st) \<and>
   rightJoystick (controller_loop srcs m) =
     (case rev (List.map_filter (stick_of ''right'') srcs) of
        [] \<Rightarrow> rightJoystick m | st # _ \<Rightarrow> st)"
  by (induction srcs arbitrary: m)
     (simp_all add: controller_step_sticks split: option.split list.split)

lemma controller_loop_true:
  "list_all snd (buttons m) \<Longrightarrow> list_all snd (buttons (controller_loop srcs m))"
  by (induction srcs arbitrary: m) (simp_all add: controller_step_true)

lemma controller_loop_buttons:
  "map_of (buttons (controller_loop srcs m)) k =
     (if \<exists>src \<in> set srcs. k \<in> set (pressed_keys src) then Some True
      else map_of (buttons m) k)"
  by (induction srcs arbitrary: m) (auto simp: controller_step_buttons)

subsection \<open>The concrete inputs\<close>

lemma ready_client_facts:
  "channel_open ready_client" "trace ready_client = []" "samplerLoc ready_client"
  by (simp_all add: channel_open_def ready_client_def open_client_def init_client_def
      createDataChannel_def)


section \<open>The claims\<close>

subsection \<open>C1: the geometric correction\<close>




subsection \<open>C2: the configuration of the telemetry channel\<close>

text \<open>
  C2, as the code has it. Whatever the outcome of the negotiation, the channel that
  \<^verbatim>\<open>startWebRTC\<close> creates is the channel \<^verbatim>\<open>poseData\<close> with \<^verbatim>\<open>ordered\<close> true and
  \<^verbatim>\<open>maxRetransmits\<close> zero: delivery without retransmission, but ordered.
\<close>

theorem telemetry_channel_ordered_no_retransmit:
  "dataChannel (snd (startWebRTC env s)) = Some (createDataChannel ''poseData'' True (Some 0))
   \<and> map_option ordered (dataChannel (snd (startWebRTC env s))) = Some True
   \<and> map_option maxRetransmits (dataChannel (snd (startWebRTC env s))) = Some (Some 0)"
  by (simp add: startWebRTC_def Let_def setStatus_def createDataChannel_def
      split: sum.split option.split jsval.split)

text \<open>
  The channel is not an unordered one.
\<close>

theorem telemetry_channel_not_unordered:
  "\<not> (case dataChannel (snd (startWebRTC answer_ok init_client)) of
         None \<Rightarrow> False
       | Some c \<Rightarrow> ordered c = False \<and> maxRetransmits c = Some 0)"
  by (simp add: startWebRTC_def Let_def setStatus_def createDataChannel_def answer_ok_def)

subsection \<open>C3: an exception in a frame\<close>




subsection \<open>C4: the validation of the calibration\<close>

text \<open>
  C4, as the code has it. \<^verbatim>\<open>loadCalibration\<close> succeeds exactly when the request is
  answered, the status is OK, the body parses, and the payload is truthy with truthy
  \<^verbatim>\<open>k_left\<close> and \<^verbatim>\<open>k_right\<close> and a \<^verbatim>\<open>baseline_m\<close> of type number; and \<^verbatim>\<open>startXR\<close> calls
  \<^verbatim>\<open>perEyeTexOffset\<close> only after such a success, with the fields of that payload. So a
  payload without \<^verbatim>\<open>baseline_m\<close>, with a \<^verbatim>\<open>baseline_m\<close> that is not a number, or with an
  absent (or otherwise falsy) matrix never reaches the calculator. Nothing tests that a
  matrix is an object.
\<close>

theorem calibration_gate:
  "(fst (loadCalibration fetched s) = None) = accepted fetched \<and>
   (accepted fetched \<longrightarrow>
      truthy (payload_of fetched) \<and>
      truthy (get_prop (payload_of fetched) ''k_left'') \<and>
      truthy (get_prop (payload_of fetched) ''k_right'') \<and>
      (\<exists>n. get_prop (payload_of fetched) ''baseline_m'' = JNum n)) \<and>
   (fst (startXR env s') = CalculatorCalled kl kr b \<longrightarrow>
      accepted (calibrationFetch env) \<and>
      get_prop (payload_of (calibrationFetch env)) ''k_left'' = kl \<and>
      get_prop (payload_of (calibrationFetch env)) ''k_right'' = kr \<and>
      get_prop (payload_of (calibrationFetch env)) ''baseline_m'' = b)"
  using startXR_reaches [of env s' kl kr b] loadCalibration_accepts [of fetched s]
    accepted_payload [of fetched]
  by (auto simp: valid_calibration_def typeof_number)

theorem calibration_gate_witness:
  "fst (loadCalibration (served good_payload) init_client) = None \<and>
   accepted (served good_payload) \<and>
   payload_of (served good_payload) = good_payload \<and>
   truthy (get_prop good_payload ''k_left'') \<and>
   get_prop good_payload ''baseline_m'' = JNum (3 / 40) \<and>
   fst (startXR (startup_with good_payload) init_client) =
     CalculatorCalled intrinsics intrinsics (JNum (3 / 40)) \<and>
   calibrationFetch (startup_with good_payload) = served good_payload"
proof -
  have v: "valid_calibration good_payload"
    by (simp add: valid_calibration_def good_payload_def intrinsics_def)
  have a: "accepted (served good_payload)"
    using v by (simp add: accepted_def served_def)
  have p: "payload_of (served good_payload) = good_payload"
    by (simp add: payload_of_def served_def)
  have b: "get_prop good_payload ''baseline_m'' = JNum (3 / 40)"
    by (simp add: good_payload_def)
  have r: "fst (startXR (startup_with good_payload) init_client) =
     CalculatorCalled intrinsics intrinsics (JNum (3 / 40))"
    using v by (simp add: startXR_served) (simp add: good_payload_def)
  have c: "calibrationFetch (startup_with good_payload) = served good_payload"
    by (simp add: startup_with_def)
  from calibration_gate [of "served good_payload" init_client "startup_with good_payload"
      init_client intrinsics intrinsics "JNum (3 / 40)"] a r p b c
  show ?thesis by auto
qed

text \<open>
  A payload whose \<^verbatim>\<open>k_left\<close> is a string passes the validation and is handed to
  \<^verbatim>\<open>perEyeTexOffset\<close>.
\<close>

theorem non_object_k_left_accepted:
  "\<not> is_object (get_prop string_k_left ''k_left'') \<and>
   fst (loadCalibration (served string_k_left) init_client) = None \<and>
   fst (startXR (startup_with string_k_left) init_client) =
     CalculatorCalled (JStr ''none'') intrinsics (JNum (3 / 40))"
proof -
  have v: "valid_calibration string_k_left"
    by (simp add: valid_calibration_def string_k_left_def intrinsics_def)
  have "fst (loadCalibration (served string_k_left) init_client) = None"
    using v by (simp add: loadCalibration_accepts accepted_def served_def)
  moreover have "fst (startXR (startup_with string_k_left) init_client) =
     CalculatorCalled (JStr ''none'') intrinsics (JNum (3 / 40))"
    using v by (simp add: startXR_served) (simp add: string_k_left_def)
  ultimately show ?thesis by (simp add: string_k_left_def)
qed

subsection \<open>C5: the two eyes mirror each other\<close>




text \<open>
  When the principal point is centred (\<open>cx\<close> is the binary64 value of \<open>width/2\<close>) the
  two offsets the JavaScript function returns are exact negatives of each other.
\<close>

lemma perEyeTexOffset_mirror_centred:
  assumes "0 < width" and "K ! 0 ! 2 = rnd ieee (width / 2)"
  shows "fst (perEyeTexOffset ieee K width height baseline_m convergence_m ''left'') +
         fst (perEyeTexOffset ieee K width height baseline_m convergence_m ''right'') = 0"
proof -
  have z: "rne p e 0 = 0" for p e by (simp add: rne_def)
  show ?thesis
    using assms by (simp add: perEyeTexOffset_def ieee_def Let_def z rne_neg)
qed

subsection \<open>C6: which eye a video track is bound to\<close>

text \<open>
  C6. Let a video track arrive after any events of a session that started with no video
  track counted. If its transceiver exposes a \<^verbatim>\<open>mid\<close> that is not null, the track is bound
  to the left video element when the \<^verbatim>\<open>mid\<close> is \<^verbatim>\<open>"0"\<close> and to the right one otherwise.
  If there is no \<^verbatim>\<open>mid\<close>, it is bound to the left element when no video track has arrived
  before it and to the right element otherwise. The chosen element gets the track as its
  source. The choice is a function of the events so far.
\<close>

theorem eye_assignment:
  assumes "kind ev = ''video''" and "videoCount s0 = 0"
  shows "targetVideo ev (run evs s0) =
           (case mid_of ev of
              Some m \<Rightarrow> if m = ''0'' then LeftVideo else RightVideo
            | None \<Rightarrow> if filter is_video_track evs = [] then LeftVideo else RightVideo)
       \<and> srcObject (targetVideo ev (run evs s0)) (handle (Track ev) (run evs s0)) =
           Some (trackId ev)"
  using assms videoCount_run [of evs s0]
  by (auto simp: targetVideo_def mid_of_def srcObject_def ontrack_def Let_def setStatus_def
      split: option.split video_el.split)

theorem eye_assignment_witness:
  "kind (track_no_mid 7) = ''video'' \<and> videoCount init_client = 0 \<and>
   targetVideo (track_no_mid 7) (run [] init_client) = LeftVideo \<and>
   targetVideo (track_no_mid 8) (run [Track (track_no_mid 7)] init_client) = RightVideo \<and>
   targetVideo (track_mid ''0'' 9) (run [Track (track_no_mid 7)] init_client) = LeftVideo \<and>
   targetVideo (track_mid ''1'' 9) (run [] init_client) = RightVideo \<and>
   leftVideoSrc (handle (Track (track_no_mid 7)) (run [] init_client)) = Some 7"
proof -
  have k: "kind (track_no_mid n) = ''video''" "kind (track_mid m n) = ''video''" for m n
    by (simp_all add: track_no_mid_def track_mid_def)
  have c: "videoCount init_client = 0" by (simp add: init_client_def)
  have m: "mid_of (track_no_mid n) = None" "mid_of (track_mid m n) = Some m" for m n
    by (simp_all add: mid_of_def track_no_mid_def track_mid_def)
  have t: "trackId (track_no_mid n) = n" for n by (simp add: track_no_mid_def)
  from eye_assignment [OF k(1) c, of 7 "[]"]
    eye_assignment [OF k(1) c, of 8 "[Track (track_no_mid 7)]"]
    eye_assignment [OF k(2) c, of "''0''" 9 "[Track (track_no_mid 7)]"]
    eye_assignment [OF k(2) c, of "''1''" 9 "[]"]
  show ?thesis
    using k c by (auto simp: m t srcObject_def simp del: run.simps handle.simps)
qed

subsection \<open>C7: a video that is not decodable yet\<close>



subsection \<open>C8: telemetry after the channel has closed\<close>

text \<open>
  C8. Once the \<^verbatim>\<open>close\<close> event of the data channel has been handled, then after any
  further events both ways of sending are no-ops: \<^verbatim>\<open>sendControllerData\<close> returns with
  the state as it was, the block that sends the pose raises nothing and leaves the state
  as it was, and no message has been handed to the channel since the close.
\<close>

theorem closed_channel_drops_telemetry:
  "(let s' = run evs (handle DataChannelClose s)
    in sendControllerData f srcs s' = s' \<and> sendPose f p s' = (None, s')
       \<and> sends s' = sends s)"
proof -
  have c: "dataChannel (handle DataChannelClose s) = None"
    by (simp add: setStatus_def)
  have s0: "sends (handle DataChannelClose s) = sends s"
    by (simp add: setStatus_def sends_def set_readyState_def split: option.split)
  from closed_run [OF c, of evs] s0
  have "dataChannel (run evs (handle DataChannelClose s)) = None"
    and "sends (run evs (handle DataChannelClose s)) = sends s" by simp_all
  then show ?thesis
    by (simp add: Let_def sendControllerData_def sendPose_def channel_open_def)
qed

subsection \<open>C9: a frame without a pose\<close>

text \<open>
  C9. When \<^verbatim>\<open>getViewerPose\<close> returns null, the only thing \<^verbatim>\<open>onXRFrame\<close> does is to request
  the next frame: no message is sent, open channel or not, and nothing is drawn.
\<close>

theorem null_pose_only_reschedules:
  assumes "viewerPose f = Inr None"
  shows "onXRFrame f s = (None, emit RequestAnimationFrame s)"
  using assms by (simp add: onXRFrame_def frame_body_def)

theorem null_pose_only_reschedules_witness:
  "viewerPose quiet_frame = Inr None \<and> channel_open ready_client \<and>
   trace (snd (onXRFrame quiet_frame ready_client)) = [RequestAnimationFrame]"
proof -
  have v: "viewerPose quiet_frame = Inr None" by (simp add: quiet_frame_def)
  from null_pose_only_reschedules [OF v, of ready_client] v show ?thesis
    by (simp add: ready_client_facts)
qed

subsection \<open>C10: the controller message\<close>

text \<open>
  C10. On an open channel that accepts it, \<^verbatim>\<open>sendControllerData\<close> sends one message. Its
  type is \<^verbatim>\<open>controller\<close> and it carries the time. Each joystick is \<open>(0, 0)\<close> unless a
  source of that hand has a gamepad with at least four axes, and then it is
  \<open>(axes[2], - axes[3])\<close> of the last such source. Every value in \<^verbatim>\<open>buttons\<close> is true, and
  a key is present exactly when some source has pressed a button that stands for it. A
  pressed grip (button 1) of the left hand sets \<^verbatim>\<open>left_grip\<close> and \<^verbatim>\<open>horn\<close>, one of the right
  hand \<^verbatim>\<open>right_grip\<close> and \<^verbatim>\<open>lights\<close>.
\<close>

theorem controller_message_shape:
  assumes "channel_open s"
    and "sendError f (ControllerMsg (controllerMessage (now f) srcs)) = None"
  shows "(let m = controllerMessage (now f) srcs
          in sendControllerData f srcs s = emit (Send (ControllerMsg m)) s \<and>
             msg_type m = ''controller'' \<and> timestamp m = now f \<and>
             leftJoystick m = joystick_of ''left'' srcs \<and>
             rightJoystick m = joystick_of ''right'' srcs \<and>
             list_all snd (buttons m) \<and>
             map_of (buttons m) k =
               (if \<exists>src \<in> set srcs. k \<in> set (pressed_keys src) then Some True else None) \<and>
             (src \<in> set srcs \<and> gamepad src = Some g \<and> pressed_at (gp_buttons g) 1 \<longrightarrow>
                (handedness src = ''left'' \<longrightarrow>
                   map_of (buttons m) ''left_grip'' = Some True \<and>
                   map_of (buttons m) ''horn'' = Some True) \<and>
                (handedness src = ''right'' \<longrightarrow>
                   map_of (buttons m) ''right_grip'' = Some True \<and>
                   map_of (buttons m) ''lights'' = Some True)))"
proof -
  let ?m = "controllerMessage (now f) srcs"
  have send: "sendControllerData f srcs s = emit (Send (ControllerMsg ?m)) s"
    using assms by (simp add: sendControllerData_def Let_def)
  have head: "msg_type ?m = ''controller''" "timestamp ?m = now f"
    by (simp_all add: controllerMessage_def controller_loop_head)
  have sticks: "leftJoystick ?m = joystick_of ''left'' srcs"
    "rightJoystick ?m = joystick_of ''right'' srcs"
    by (simp_all add: controllerMessage_def joystick_of_def controller_loop_sticks
        split: list.split)
  have true: "list_all snd (buttons ?m)"
    by (simp add: controllerMessage_def controller_loop_true)
  have keys: "map_of (buttons ?m) k' =
      (if \<exists>src \<in> set srcs. k' \<in> set (pressed_keys src) then Some True else None)" for k'
    by (simp add: controllerMessage_def controller_loop_buttons)
  have grip: "map_of (buttons ?m) (handedness src @ ''_grip'') = Some True"
    and aka: "handedness src = ''left'' \<Longrightarrow> map_of (buttons ?m) ''horn'' = Some True"
       "handedness src = ''right'' \<Longrightarrow> map_of (buttons ?m) ''lights'' = Some True"
    if "src \<in> set srcs" "gamepad src = Some g" "pressed_at (gp_buttons g) 1"
  proof -
    have 1: "handedness src @ ''_grip'' \<in> set (pressed_keys src)"
      using that(2,3) unfolding in_pressed_keys by simp
    have 2: "handedness src = ''left'' \<Longrightarrow> ''horn'' \<in> set (pressed_keys src)"
      using that(2,3) unfolding in_pressed_keys by simp
    have 3: "handedness src = ''right'' \<Longrightarrow> ''lights'' \<in> set (pressed_keys src)"
      using that(2,3) unfolding in_pressed_keys by simp
    show "map_of (buttons ?m) (handedness src @ ''_grip'') = Some True"
      using 1 that(1) unfolding keys by auto
    show "handedness src = ''left'' \<Longrightarrow> map_of (buttons ?m) ''horn'' = Some True"
      using 2 that(1) unfolding keys by auto
    show "handedness src = ''right'' \<Longrightarrow> map_of (buttons ?m) ''lights'' = Some True"
      using 3 that(1) unfolding keys by auto
  qed
  from send head sticks true keys [of k] grip aka show ?thesis
    by (auto simp: Let_def)
qed

theorem controller_message_shape_witness:
  "channel_open open_client \<and>
   sendError quiet_frame (ControllerMsg (controllerMessage (now quiet_frame) [left_controller])) = None \<and>
   leftJoystick (controllerMessage 1000 [left_controller]) = (1 / 2, - (1 / 4)) \<and>
   rightJoystick (controllerMessage 1000 [left_controller]) = (0, 0) \<and>
   buttons (controllerMessage 1000 [left_controller]) = [(''left_grip'', True), (''horn'', True)] \<and>
   map_of (buttons (controllerMessage 1000 [left_controller])) ''left_grip'' = Some True \<and>
   map_of (buttons (controllerMessage 1000 [left_controller])) ''horn'' = Some True \<and>
   sendControllerData quiet_frame [left_controller] open_client =
     emit (Send (ControllerMsg (controllerMessage 1000 [left_controller]))) open_client"
proof -
  have o: "channel_open open_client"
    by (simp add: channel_open_def open_client_def createDataChannel_def)
  have e: "sendError quiet_frame
             (ControllerMsg (controllerMessage (now quiet_frame) [left_controller])) = None"
    by (simp add: quiet_frame_def)
  have g: "gamepad left_controller = Some \<lparr>axes = [0, 0, 1 / 2, 1 / 4],
                       gp_buttons = [\<lparr>pressed = False\<rparr>, \<lparr>pressed = True\<rparr>]\<rparr>"
    "handedness left_controller = ''left''"
    by (simp_all add: left_controller_def)
  have b: "buttons (controllerMessage 1000 [left_controller]) =
             [(''left_grip'', True), (''horn'', True)]"
    by (simp add: controllerMessage_def controller_step_def g pressed_at_def set_button_def Let_def)
  have j: "joystick_of ''left'' [left_controller] = (1 / 2, - (1 / 4))"
    "joystick_of ''right'' [left_controller] = (0, 0)"
    by (simp_all add: joystick_of_def stick_of_def g)
  have n: "now quiet_frame = 1000" by (simp add: quiet_frame_def)
  from controller_message_shape [OF o e, of "''horn''" left_controller
      "\<lparr>axes = [0, 0, 1 / 2, 1 / 4], gp_buttons = [\<lparr>pressed = False\<rparr>, \<lparr>pressed = True\<rparr>]\<rparr>"]
  show ?thesis
    using o e b j g n by (simp add: Let_def pressed_at_def)
qed

end
